theory Spec2Isabelle
  imports Main
begin

section \<open>Python strings and values\<close>

text \<open>
  A Python \<^verbatim>\<open>str\<close> is a sequence of Unicode code points, and \<^verbatim>\<open>len\<close> counts code
  points. A string is therefore a list of code points (natural numbers); the ellipsis
  U+2026 is one element. \<open>u\<close> reads an ASCII literal.
\<close>

type_synonym ustr = "nat list"

definition u :: "string \<Rightarrow> ustr" where
  "u s = map of_char s"

text \<open>\<^verbatim>\<open>s.startswith(p)\<close>\<close>

definition startswith :: "ustr \<Rightarrow> ustr \<Rightarrow> bool" where
  "startswith s p = (take (length p) s = p)"

text \<open>
  \<^verbatim>\<open>s.split(sep)\<close> for a separator of one code point: the pieces between the
  separators, never an empty list.
\<close>

fun str_split :: "nat \<Rightarrow> ustr \<Rightarrow> ustr list" where
  "str_split sep [] = [[]]"
| "str_split sep (c # cs) =
     (if c = sep then [] # str_split sep cs
      else (case str_split sep cs of
              p # ps \<Rightarrow> (c # p) # ps
            | [] \<Rightarrow> [[c]]))"

text \<open>The decimal digits of an integer, as \<^verbatim>\<open>int.__repr__\<close> writes them.\<close>

fun str_nat :: "nat \<Rightarrow> ustr" where
  "str_nat n = (if n < 10 then [48 + n] else str_nat (n div 10) @ [48 + n mod 10])"

declare str_nat.simps [simp del]

definition str_int :: "int \<Rightarrow> ustr" where
  "str_int i = (if i < 0 then 45 # str_nat (nat (- i)) else str_nat (nat i))"

text \<open>
  The values of the entries of a metadata dictionary, as pydbus unpacks what the bus
  delivers: strings (object paths and signatures are strings too), integers, booleans,
  doubles, arrays as lists, structures as tuples, and dictionaries, whose keys are of the
  basic types. The script does no arithmetic on a double: it tests it, formats it and
  encodes it. A finite double is therefore given by the text \<^verbatim>\<open>float.__repr__\<close> writes
  for it, such as \<^verbatim>\<open>1.5\<close> or \<^verbatim>\<open>1e-05\<close>.
\<close>

datatype pydouble = NaN | Infinity | NegInfinity | Finite ustr

datatype pykey = KStr ustr | KInt int | KBool bool | KDouble pydouble

datatype pyval =
    PStr ustr
  | PInt int
  | PBool bool
  | PDouble pydouble
  | PList "pyval list"
  | PTuple "pyval list"
  | PDict "(pykey \<times> pyval) list"

text \<open>
  The truth value of a value in a condition. A double is false when it is zero, of
  either sign; \<^verbatim>\<open>nan\<close> is true.
\<close>

fun truthy_double :: "pydouble \<Rightarrow> bool" where
  "truthy_double (Finite r) = (r \<noteq> u ''0.0'' \<and> r \<noteq> u ''-0.0'')"
| "truthy_double d = True"

fun truthy :: "pyval \<Rightarrow> bool" where
  "truthy (PStr s) = (s \<noteq> [])"
| "truthy (PInt i) = (i \<noteq> 0)"
| "truthy (PBool b) = b"
| "truthy (PDouble d) = truthy_double d"
| "truthy (PList xs) = (xs \<noteq> [])"
| "truthy (PTuple xs) = (xs \<noteq> [])"
| "truthy (PDict kvs) = (kvs \<noteq> [])"

text \<open>
  The exceptions of the Reporter that its handlers meet: \<^verbatim>\<open>TypeError\<close>, and the
  \<^verbatim>\<open>UnicodeEncodeError\<close> of a write to standard output.
\<close>

datatype py_error = TypeError | UnicodeEncodeError

text \<open>\<^verbatim>\<open>len\<close>: a number has none.\<close>

fun py_len :: "pyval \<Rightarrow> py_error + nat" where
  "py_len (PStr s) = Inr (length s)"
| "py_len (PList xs) = Inr (length xs)"
| "py_len (PTuple xs) = Inr (length xs)"
| "py_len (PDict kvs) = Inr (length kvs)"
| "py_len v = Inl TypeError"

text \<open>
  \<^verbatim>\<open>str\<close>, which formats a value in an f-string. For a list, a tuple or a dictionary it
  writes the \<^verbatim>\<open>repr\<close> of the elements, which quotes strings by the Unicode tables of
  the runtime: the text of a container is a parameter, \<open>cstr\<close>.
\<close>

fun str_double :: "pydouble \<Rightarrow> ustr" where
  "str_double NaN = u ''nan''"
| "str_double Infinity = u ''inf''"
| "str_double NegInfinity = u ''-inf''"
| "str_double (Finite r) = r"

fun py_str :: "(pyval \<Rightarrow> ustr) \<Rightarrow> pyval \<Rightarrow> ustr" where
  "py_str cstr (PStr s) = s"
| "py_str cstr (PInt i) = str_int i"
| "py_str cstr (PBool b) = (if b then u ''True'' else u ''False'')"
| "py_str cstr (PDouble d) = str_double d"
| "py_str cstr v = cstr v"

section \<open>The Now-Playing Reporter\<close>

text \<open>The script \<^verbatim>\<open>scripts/waybar/mediaplayer.py\<close>.\<close>

subsection \<open>Configuration\<close>

definition MAX_LENGTH :: nat where
  "MAX_LENGTH = 40"

text \<open>The ellipsis marker of line 137, the single code point U+2026.\<close>

definition ELLIPSIS :: ustr where
  "ELLIPSIS = [8230]"

subsection \<open>The session bus\<close>

text \<open>
  The script reads the session bus through pydbus; the bus and the media players are the
  environment. A property read or a \<^verbatim>\<open>bus.get\<close> that raises is \<open>None\<close>.

  The metadata of a player is the dictionary of its \<^verbatim>\<open>Metadata\<close> property. MPRIS makes
  \<^verbatim>\<open>xesam:title\<close> and \<^verbatim>\<open>xesam:album\<close> strings and \<^verbatim>\<open>xesam:artist\<close> a list of
  strings, but the bus lets a player send any value under a key. A field is \<open>None\<close> when
  the dictionary has no such key; \<open>other_entries\<close> counts the remaining keys, which the
  script never reads.
\<close>

record metadata =
  xesam_artist :: "pyval option"
  xesam_title :: "pyval option"
  xesam_album :: "pyval option"
  other_entries :: nat

text \<open>\<^verbatim>\<open>not metadata\<close>: the dictionary has no entry.\<close>

definition metadata_empty :: "metadata \<Rightarrow> bool" where
  "metadata_empty md =
     (xesam_artist md = None \<and> xesam_title md = None \<and> xesam_album md = None \<and>
      other_entries md = 0)"

text \<open>
  A player proxy object. The script reads \<^verbatim>\<open>PlaybackStatus\<close> twice, both times from the
  live endpoint: once while listing the players (line 68) and once while extracting the
  metadata of the selected one (line 96). The endpoint may answer the two reads
  differently, so each read has a field of its own.
\<close>

record player =
  PlaybackStatus1 :: "ustr option"
  Metadata :: "metadata option"
  PlaybackStatus2 :: "ustr option"

text \<open>
  The bus: \<^verbatim>\<open>bus.dbus.ListNames()\<close> and \<^verbatim>\<open>bus.get(name, "/org/mpris/MediaPlayer2")\<close>.
\<close>

record bus =
  ListNames :: "ustr list option"
  bus_get :: "ustr \<Rightarrow> player option"

text \<open>
  What \<^verbatim>\<open>get_bus\<close> finds: pydbus cannot be imported, the session bus cannot be reached,
  or a connection.
\<close>

datatype session = NoPydbus | NoSessionBus | SessionBus bus

definition get_bus :: "session \<Rightarrow> bus option" where
  "get_bus env =
     (case env of
        NoPydbus \<Rightarrow> None
      | NoSessionBus \<Rightarrow> None
      | SessionBus b \<Rightarrow> Some b)"

subsection \<open>Player enumeration\<close>

text \<open>
  A candidate is the triple \<^verbatim>\<open>(player, name, status)\<close> that \<^verbatim>\<open>get_all_players\<close>
  appends.
\<close>

type_synonym 'p candidate = "'p \<times> ustr \<times> ustr"

definition MPRIS_PREFIX :: ustr where
  "MPRIS_PREFIX = u ''org.mpris.MediaPlayer2.''"

definition get_player_service_name :: "ustr \<Rightarrow> ustr" where
  "get_player_service_name service_name =
     (if startswith service_name MPRIS_PREFIX then service_name
      else MPRIS_PREFIX @ service_name)"

text \<open>The pair \<^verbatim>\<open>(None, None)\<close> of the handler is \<open>None\<close>.\<close>

definition get_player_from_service :: "bus \<Rightarrow> ustr \<Rightarrow> (player \<times> ustr) option" where
  "get_player_from_service b service_name =
     (let full_service_name = get_player_service_name service_name in
      case bus_get b full_service_name of
        Some p \<Rightarrow> Some (p, service_name)
      | None \<Rightarrow> None)"

text \<open>
  The loop of \<^verbatim>\<open>get_all_players\<close> over the listed names, with the list \<^verbatim>\<open>players\<close> it
  appends to. \<^verbatim>\<open>service.split('.')[-1]\<close> is the last piece of the split, which is never
  empty of pieces. A proxy object is true in a condition.
\<close>

fun players_loop :: "bus \<Rightarrow> ustr list \<Rightarrow> player candidate list \<Rightarrow> player candidate list" where
  "players_loop b [] players = players"
| "players_loop b (service # services) players =
     (if startswith service MPRIS_PREFIX then
        (let player_name = last (str_split 46 service) in
         case get_player_from_service b player_name of
           Some (p, name) \<Rightarrow>
             (case PlaybackStatus1 p of
                Some st \<Rightarrow> players_loop b services (players @ [(p, name, st)])
              | None \<Rightarrow> players_loop b services players)
         | None \<Rightarrow> players_loop b services players)
      else players_loop b services players)"

definition get_all_players :: "bus \<Rightarrow> player candidate list" where
  "get_all_players b =
     (case ListNames b of
        Some services \<Rightarrow> players_loop b services []
      | None \<Rightarrow> [])"

subsection \<open>Candidate selection\<close>

text \<open>
  \<^verbatim>\<open>choose_best_player\<close> never looks inside the player object, so the handle is a type
  parameter here. The function returns a pair; \<^verbatim>\<open>(None, None)\<close> is \<open>None\<close>.
\<close>

definition choose_best_player :: "'p candidate list \<Rightarrow> ('p \<times> ustr) option" where
  "choose_best_player players =
     (let playing_players = filter (\<lambda>p. snd (snd p) = u ''Playing'') players in
      if playing_players \<noteq> [] then
        Some (fst (hd playing_players), fst (snd (hd playing_players)))
      else
        (let paused_players = filter (\<lambda>p. snd (snd p) = u ''Paused'') players in
         if paused_players \<noteq> [] then
           Some (fst (hd paused_players), fst (snd (hd paused_players)))
         else None))"

subsection \<open>Display text\<close>

text \<open>
  The dictionary \<^verbatim>\<open>get_metadata_info\<close> returns, with its four keys. The text is the
  formatted string, or the title or the artist as it is. \<^verbatim>\<open>len(text)\<close> raises when that
  is a number. When the length is over the maximum, the slice and the concatenation with
  the ellipsis give a string for a string; for a list or a tuple the concatenation raises
  \<^verbatim>\<open>TypeError\<close>, and for a dictionary the slice raises (\<^verbatim>\<open>TypeError\<close>, and
  \<^verbatim>\<open>KeyError\<close> from Python 3.12 on; both reach the same handler).
\<close>

record track_info =
  artist :: pyval
  title :: pyval
  album :: pyval
  status :: ustr

definition format_display_text :: "(pyval \<Rightarrow> ustr) \<Rightarrow> track_info \<Rightarrow> py_error + pyval" where
  "format_display_text cstr info =
     (let text =
        (if truthy (artist info) \<and> truthy (title info)
         then PStr (py_str cstr (artist info) @ u '' - '' @ py_str cstr (title info))
         else if truthy (title info) then title info
         else if truthy (artist info) then artist info
         else PStr (u ''Unknown Track''))
      in case py_len text of
           Inl e \<Rightarrow> Inl e
         | Inr n \<Rightarrow>
             if n > MAX_LENGTH then
               (case text of
                  PStr s \<Rightarrow> Inr (PStr (take (MAX_LENGTH - 1) s @ ELLIPSIS))
                | _ \<Rightarrow> Inl TypeError)
             else Inr text)"

subsection \<open>Metadata extraction\<close>

text \<open>
  Either property read may raise, which the handler turns into \<^verbatim>\<open>None\<close>.
  The artist is the first element of a non-empty list, a string itself, and the empty
  string for an empty list, a missing key or any other value.
\<close>

definition get_metadata_info :: "player \<Rightarrow> track_info option" where
  "get_metadata_info p =
     (case Metadata p of
        None \<Rightarrow> None
      | Some md \<Rightarrow>
          (case PlaybackStatus2 p of
             None \<Rightarrow> None
           | Some st \<Rightarrow>
               if metadata_empty md \<or> st = u ''Stopped'' then None
               else
                 Some \<lparr>artist =
                         (case xesam_artist md of
                            Some (PList (a # _)) \<Rightarrow> a
                          | Some (PStr a) \<Rightarrow> PStr a
                          | _ \<Rightarrow> PStr []),
                       title = (case xesam_title md of Some t \<Rightarrow> t | None \<Rightarrow> PStr []),
                       album = (case xesam_album md of Some a \<Rightarrow> a | None \<Rightarrow> PStr []),
                       status = st\<rparr>))"

subsection \<open>Icons\<close>

text \<open>
  The table as the source file has it: the glyph of spotify is U+F1BC, that of vlc is
  U+F057C, and those of firefox and chrome are empty strings. The default is U+1F3B5.
\<close>

definition PLAYER_ICONS :: "(ustr \<times> ustr) list" where
  "PLAYER_ICONS =
     [(u ''spotify'', [61884]), (u ''firefox'', []), (u ''chrome'', []),
      (u ''vlc'', [984444])]"

definition DEFAULT_ICON :: ustr where
  "DEFAULT_ICON = [127925]"

text \<open>
  \<^verbatim>\<open>str.lower\<close> follows the Unicode tables of the Python runtime, which are no part of
  the script: the lowercasing function is a parameter. \<open>ascii_lower\<close> is what it does on
  ASCII text, which is all a bus name can hold.
\<close>

definition ascii_lower :: "ustr \<Rightarrow> ustr" where
  "ascii_lower s = map (\<lambda>c. if 65 \<le> c \<and> c \<le> 90 then c + 32 else c) s"

definition get_player_icon :: "(ustr \<Rightarrow> ustr) \<Rightarrow> ustr \<Rightarrow> ustr" where
  "get_player_icon lower player_name =
     (case map_of PLAYER_ICONS (lower player_name) of
        Some icon \<Rightarrow> icon
      | None \<Rightarrow> DEFAULT_ICON)"

subsection \<open>JSON output\<close>

text \<open>
  The dictionary \<^verbatim>\<open>main\<close> prints has strings as keys; a dictionary keeps its keys in
  insertion order, so it is a list of pairs.
\<close>

type_synonym json_object = "(ustr \<times> pyval) list"

text \<open>
  \<^verbatim>\<open>json.dumps(data, ensure_ascii=False)\<close>. In a string the encoder escapes the quote, the
  backslash and the control characters below U+0020 (five of them by a letter, the others
  as \<^verbatim>\<open>\u00XX\<close> with lowercase hex digits) and writes every other code point as it
  is. The separators are \<^verbatim>\<open>", "\<close> and \<^verbatim>\<open>": "\<close>.
\<close>

definition hex_digit :: "nat \<Rightarrow> nat" where
  "hex_digit d = (if d < 10 then 48 + d else 87 + d)"

definition escape_char :: "nat \<Rightarrow> ustr" where
  "escape_char c =
     (if c = 34 then [92, 34]
      else if c = 92 then [92, 92]
      else if c = 10 then [92, 110]
      else if c = 13 then [92, 114]
      else if c = 9 then [92, 116]
      else if c = 8 then [92, 98]
      else if c = 12 then [92, 102]
      else if c < 32 then [92, 117, 48, 48, hex_digit (c div 16), hex_digit (c mod 16)]
      else [c])"

definition encode_basestring :: "ustr \<Rightarrow> ustr" where
  "encode_basestring s = [34] @ concat (map escape_char s) @ [34]"

text \<open>\<^verbatim>\<open>sep.join(xs)\<close>\<close>

fun join :: "ustr \<Rightarrow> ustr list \<Rightarrow> ustr" where
  "join sep [] = []"
| "join sep [x] = x"
| "join sep (x # y # ys) = x @ sep @ join sep (y # ys)"

text \<open>
  A double that is not finite is written as \<^verbatim>\<open>NaN\<close>, \<^verbatim>\<open>Infinity\<close> or \<^verbatim>\<open>-Infinity\<close>, as
  the default \<^verbatim>\<open>allow_nan=True\<close> has it; a finite one by its \<^verbatim>\<open>repr\<close>. A key that is
  not a string becomes one: an integer by its digits, a boolean as \<^verbatim>\<open>true\<close> or
  \<^verbatim>\<open>false\<close>, a double as the encoder writes doubles.
\<close>

fun encode_double :: "pydouble \<Rightarrow> ustr" where
  "encode_double NaN = u ''NaN''"
| "encode_double Infinity = u ''Infinity''"
| "encode_double NegInfinity = u ''-Infinity''"
| "encode_double (Finite r) = r"

fun key_text :: "pykey \<Rightarrow> ustr" where
  "key_text (KStr s) = s"
| "key_text (KInt i) = str_int i"
| "key_text (KBool b) = (if b then u ''true'' else u ''false'')"
| "key_text (KDouble d) = encode_double d"

fun encode_value :: "pyval \<Rightarrow> ustr" where
  "encode_value (PStr s) = encode_basestring s"
| "encode_value (PInt i) = str_int i"
| "encode_value (PBool b) = (if b then u ''true'' else u ''false'')"
| "encode_value (PDouble d) = encode_double d"
| "encode_value (PList xs) = [91] @ join (u '', '') (map encode_value xs) @ [93]"
| "encode_value (PTuple xs) = [91] @ join (u '', '') (map encode_value xs) @ [93]"
| "encode_value (PDict kvs) =
     [123] @
     join (u '', '')
       (map (\<lambda>kv. encode_basestring (key_text (fst kv)) @ u '': '' @ encode_value (snd kv))
          kvs) @
     [125]"

definition encode_item :: "ustr \<times> pyval \<Rightarrow> ustr" where
  "encode_item kv = encode_basestring (fst kv) @ u '': '' @ encode_value (snd kv)"

definition dumps :: "json_object \<Rightarrow> ustr" where
  "dumps d = [123] @ join (u '', '') (map encode_item d) @ [125]"

text \<open>
  Standard output is the list of the strings written to it, in order. A write encodes the
  whole string before anything of it is written, and raises \<^verbatim>\<open>UnicodeEncodeError\<close> when
  the encoding of standard output has no code for one of its code points; \<open>enc\<close> tells
  which code points beyond ASCII the encoding has. ASCII text is always written.
\<close>

definition writable :: "(nat \<Rightarrow> bool) \<Rightarrow> ustr \<Rightarrow> bool" where
  "writable enc s = list_all (\<lambda>c. c < 128 \<or> enc c) s"

text \<open>
  \<^verbatim>\<open>print_json\<close>, lines 211 to 220. On the values above the encoder does not raise. When
  the write of the encoded dictionary raises, the handler writes the empty dictionary,
  which is ASCII.
\<close>

definition print_json :: "(nat \<Rightarrow> bool) \<Rightarrow> json_object \<Rightarrow> ustr list \<Rightarrow> ustr list" where
  "print_json enc d out =
     (let output = dumps d in
      if writable enc (output @ [10]) then out @ [output @ [10]]
      else out @ [u ''{}'' @ [10]])"

subsection \<open>The main function\<close>

text \<open>
  Lines 180 to 198: the dictionary of a successful run, from the name of the selected
  player, its track info and the display text.
\<close>

definition build_result ::
  "(ustr \<Rightarrow> ustr) \<Rightarrow> (pyval \<Rightarrow> ustr) \<Rightarrow> ustr \<Rightarrow> track_info \<Rightarrow> pyval \<Rightarrow> json_object" where
  "build_result lower cstr player_name info text =
     (let icon = get_player_icon lower player_name;
          tooltip = py_str cstr (artist info) @ u '' - '' @ py_str cstr (title info);
          tooltip = (if truthy (album info)
                     then tooltip @ [10] @ u ''Album: '' @ py_str cstr (album info)
                     else tooltip);
          tooltip = tooltip @ [10] @ u ''Status: '' @ status info;
          tooltip = tooltip @ [10] @ u ''Player: '' @ player_name;
          result =
            [(u ''text'', text),
             (u ''tooltip'', PStr tooltip),
             (u ''class'', PStr (u ''player-'' @ lower player_name)),
             (u ''alt'', PStr player_name),
             (u ''percentage'', PInt 0)]
      in if icon \<noteq> DEFAULT_ICON then result @ [(u ''icon'', PStr icon)] else result)"

text \<open>
  \<^verbatim>\<open>main\<close>, from the environment to what it writes to standard output, which is empty
  when it starts. Logging goes to standard error and is left out. The functions that
  read the bus catch their own exceptions; an exception of \<^verbatim>\<open>format_display_text\<close>
  reaches the handler of line 206, which prints the empty dictionary. An interrupt from
  the keyboard is not part of this development.
\<close>

definition main ::
  "(ustr \<Rightarrow> ustr) \<Rightarrow> (pyval \<Rightarrow> ustr) \<Rightarrow> (nat \<Rightarrow> bool) \<Rightarrow> session \<Rightarrow> ustr list" where
  "main lower cstr enc env =
     (case get_bus env of
        None \<Rightarrow> print_json enc [] []
      | Some b \<Rightarrow>
          (let players = get_all_players b in
           if players = [] then print_json enc [] []
           else
             (case choose_best_player players of
                None \<Rightarrow> print_json enc [] []
              | Some (best_player, player_name) \<Rightarrow>
                  (case get_metadata_info best_player of
                     None \<Rightarrow> print_json enc [] []
                   | Some info \<Rightarrow>
                       (case format_display_text cstr info of
                          Inl e \<Rightarrow> print_json enc [] []
                        | Inr text \<Rightarrow>
                            print_json enc
                              (build_result lower cstr player_name info text) [])))))"

section \<open>The Fetcher\<close>

text \<open>The script \<^verbatim>\<open>scripts/fetch_clash_config.py\<close>.\<close>

subsection \<open>Configuration\<close>

definition FILE_URL :: ustr where
  "FILE_URL =
     u ''https://feed.iggv5.com/c/cfdde660-45ef-4e79-a6e8-578b16ba6aa8/platform/clash/iGG-iGuge''"

definition SAVE_DIRECTORY :: ustr where
  "SAVE_DIRECTORY = u ''/home/wanzhengwang/.config/clash''"

definition SAVE_FILENAME :: "ustr option" where
  "SAVE_FILENAME = Some (u ''config.yaml'')"

subsection \<open>The file system, the network and the log\<close>

text \<open>
  The exceptions an attempt meets. \<^verbatim>\<open>requests\<close> raises the last three, which are
  \<^verbatim>\<open>RequestException\<close>s; \<^verbatim>\<open>os.makedirs\<close> and \<^verbatim>\<open>open\<close> raise \<^verbatim>\<open>OSError\<close>. Each carries
  its message, \<^verbatim>\<open>HTTPError\<close> the status code.
\<close>

datatype exn = OSError ustr | ConnectionError ustr | HTTPError nat | ChunkedEncodingError ustr

fun is_request_exception :: "exn \<Rightarrow> bool" where
  "is_request_exception (OSError m) = False"
| "is_request_exception (ConnectionError m) = True"
| "is_request_exception (HTTPError code) = True"
| "is_request_exception (ChunkedEncodingError m) = True"

text \<open>
  The lines the script prints, one constructor for each \<^verbatim>\<open>print\<close>: the banner of line
  76, the start of an attempt with its time stamp (line 29), the creation of the directory
  (line 35), the success with the path (line 60), the network failure (line 63) and the
  unknown error (line 65), each failure with its exception.
\<close>

datatype log_line =
    Banner
  | Started ustr
  | DirCreated ustr
  | Saved ustr
  | NetworkFailure exn
  | UnknownError exn

text \<open>
  What an attempt does to the world, in order: a line printed, a call of
  \<^verbatim>\<open>os.makedirs\<close>, the GET request, a file opened for writing, a chunk written.
\<close>

type_synonym bytes = "char list"

datatype event =
    Print log_line
  | Makedirs ustr
  | Get ustr
  | OpenWB ustr
  | WriteChunk ustr bytes

text \<open>
  The state: the directories and the files that exist, and the events so far.
  \<^verbatim>\<open>os.makedirs\<close> also creates the missing ancestors of the directory, which the script
  never looks at; the state keeps the directory itself.
\<close>

record state =
  dirs :: "ustr set"
  files :: "ustr \<rightharpoonup> bytes"
  events :: "event list"

definition emit :: "event \<Rightarrow> state \<Rightarrow> state" where
  "emit e st = st\<lparr>events := events st @ [e]\<rparr>"

text \<open>\<^verbatim>\<open>os.path.exists\<close>\<close>

definition path_exists :: "state \<Rightarrow> ustr \<Rightarrow> bool" where
  "path_exists st p = (p \<in> dirs st \<or> files st p \<noteq> None)"

text \<open>\<^verbatim>\<open>os.path.join\<close> of two parts, on POSIX.\<close>

definition path_join :: "ustr \<Rightarrow> ustr \<Rightarrow> ustr" where
  "path_join a b =
     (if startswith b [47] then b
      else if a = [] \<or> last a = 47 then a @ b
      else a @ [47] @ b)"

text \<open>
  The server's answer to the GET request: no answer (\<^verbatim>\<open>requests.get\<close> raises), or a
  status code with the chunks \<^verbatim>\<open>iter_content\<close> yields and, when the stream breaks after
  them, the message of the exception.
\<close>

datatype http_result =
    NoResponse ustr
  | Response nat "bytes list" "ustr option"

text \<open>
  What one attempt finds: the time stamp of \<^verbatim>\<open>datetime.now()\<close>, the seconds of
  \<^verbatim>\<open>time.time()\<close>, whether \<^verbatim>\<open>os.makedirs\<close> and \<^verbatim>\<open>open\<close> raise, and the answer to the
  request. A chunk that has arrived is written: writing to the open file does not raise.
\<close>

record attempt =
  timestamp :: ustr
  epoch :: int
  makedirs_raises :: "ustr option"
  response :: http_result
  open_raises :: "ustr option"

subsection \<open>One attempt\<close>

text \<open>Lines 43 to 49.\<close>

definition final_filename :: "attempt \<Rightarrow> ustr" where
  "final_filename a =
     (case SAVE_FILENAME of
        Some name \<Rightarrow> name
      | None \<Rightarrow>
          (let name = last (str_split 47 FILE_URL) in
           if name = [] then u ''download_'' @ str_int (epoch a) @ u ''.tmp'' else name))"

text \<open>
  Opening a file with mode \<^verbatim>\<open>'wb'\<close> creates it or empties it; the loop of lines 57 and
  58 appends each chunk.
\<close>

definition open_wb :: "ustr \<Rightarrow> state \<Rightarrow> state" where
  "open_wb p st = emit (OpenWB p) (st\<lparr>files := (files st)(p \<mapsto> [])\<rparr>)"

fun write_chunks :: "ustr \<Rightarrow> bytes list \<Rightarrow> state \<Rightarrow> state" where
  "write_chunks p [] st = st"
| "write_chunks p (chunk # chunks) st =
     write_chunks p chunks
       (emit (WriteChunk p chunk)
          (st\<lparr>files := (files st)(p \<mapsto> (case files st p of Some old \<Rightarrow> old | None \<Rightarrow> []) @ chunk)\<rparr>))"

text \<open>
  The body of the \<^verbatim>\<open>try\<close> statement, lines 32 to 60: the state it ends in, or the
  exception raised and the state at that point. \<^verbatim>\<open>raise_for_status\<close> raises on the
  status codes from 400 to 599.
\<close>

definition ensure_directory :: "attempt \<Rightarrow> state \<Rightarrow> (exn \<times> state) + state" where
  "ensure_directory a st =
     (if \<not> path_exists st SAVE_DIRECTORY then
        (let st1 = emit (Makedirs SAVE_DIRECTORY) st in
         case makedirs_raises a of
           Some m \<Rightarrow> Inl (OSError m, st1)
         | None \<Rightarrow>
             Inr (emit (Print (DirCreated SAVE_DIRECTORY))
                    (st1\<lparr>dirs := insert SAVE_DIRECTORY (dirs st1)\<rparr>)))
      else Inr st)"

definition download_body :: "attempt \<Rightarrow> state \<Rightarrow> (exn \<times> state) + state" where
  "download_body a st =
     (case ensure_directory a st of
        Inl raised \<Rightarrow> Inl raised
      | Inr st1 \<Rightarrow>
          (let st2 = emit (Get FILE_URL) st1 in
           case response a of
             NoResponse m \<Rightarrow> Inl (ConnectionError m, st2)
           | Response status_code chunks broken \<Rightarrow>
               if 400 \<le> status_code \<and> status_code < 600 then Inl (HTTPError status_code, st2)
               else
                 (let save_path = path_join SAVE_DIRECTORY (final_filename a) in
                  case open_raises a of
                    Some m \<Rightarrow> Inl (OSError m, st2)
                  | None \<Rightarrow>
                      (let st3 = write_chunks save_path chunks (open_wb save_path st2) in
                       case broken of
                         Some m \<Rightarrow> Inl (ChunkedEncodingError m, st3)
                       | None \<Rightarrow> Inr (emit (Print (Saved save_path)) st3)))))"

text \<open>
  \<^verbatim>\<open>download_file\<close>: the start line, the body, and the two handlers, which between them
  catch every exception of the body. The function therefore always returns.
\<close>

definition download_file :: "attempt \<Rightarrow> state \<Rightarrow> state" where
  "download_file a st =
     (case download_body a (emit (Print (Started (timestamp a))) st) of
        Inr st1 \<Rightarrow> st1
      | Inl (e, st1) \<Rightarrow>
          if is_request_exception e then emit (Print (NetworkFailure e)) st1
          else emit (Print (UnknownError e)) st1)"

text \<open>The lines printed, in order.\<close>

fun printed :: "event list \<Rightarrow> log_line list" where
  "printed [] = []"
| "printed (Print l # es) = l # printed es"
| "printed (e # es) = printed es"

fun is_failure :: "log_line \<Rightarrow> bool" where
  "is_failure (NetworkFailure e) = True"
| "is_failure (UnknownError e) = True"
| "is_failure l = False"

subsection \<open>The schedule\<close>














section \<open>Example environments\<close>

text \<open>
  A bus on which the names of \<open>regs\<close> are registered beside the bus driver's own, and
  \<^verbatim>\<open>bus.get\<close> reaches exactly the registered names.
\<close>

definition bus_of :: "(ustr \<times> player) list \<Rightarrow> bus" where
  "bus_of regs =
     \<lparr>ListNames = Some (u ''org.freedesktop.DBus'' # map fst regs), bus_get = map_of regs\<rparr>"

definition track_AT :: metadata where
  "track_AT =
     \<lparr>xesam_artist = Some (PList [PStr (u ''A'')]), xesam_title = Some (PStr (u ''T'')),
      xesam_album = None, other_entries = 1\<rparr>"


definition no_entries :: metadata where
  "no_entries =
     \<lparr>xesam_artist = None, xesam_title = None, xesam_album = None, other_entries = 0\<rparr>"

definition player_playing :: player where
  "player_playing =
     \<lparr>PlaybackStatus1 = Some (u ''Playing''), Metadata = Some track_AT,
      PlaybackStatus2 = Some (u ''Playing'')\<rparr>"


definition player_stopped :: player where
  "player_stopped =
     \<lparr>PlaybackStatus1 = Some (u ''Stopped''), Metadata = Some track_AT,
      PlaybackStatus2 = Some (u ''Stopped'')\<rparr>"

text \<open>A player that stops between the listing and the extraction.\<close>

definition player_stopping :: player where
  "player_stopping =
     \<lparr>PlaybackStatus1 = Some (u ''Playing''), Metadata = Some track_AT,
      PlaybackStatus2 = Some (u ''Stopped'')\<rparr>"

text \<open>A playing player with an empty metadata dictionary.\<close>

definition player_blank :: player where
  "player_blank =
     \<lparr>PlaybackStatus1 = Some (u ''Playing''), Metadata = Some no_entries,
      PlaybackStatus2 = Some (u ''Playing'')\<rparr>"

text \<open>Metadata whose title is a list that holds the double \<^verbatim>\<open>nan\<close>, with no artist.\<close>

definition track_nan :: metadata where
  "track_nan =
     \<lparr>xesam_artist = None, xesam_title = Some (PList [PDouble NaN]), xesam_album = None,
      other_entries = 1\<rparr>"

definition player_nan :: player where
  "player_nan =
     \<lparr>PlaybackStatus1 = Some (u ''Playing''), Metadata = Some track_nan,
      PlaybackStatus2 = Some (u ''Playing'')\<rparr>"

text \<open>
  The text of a container, for the examples: \<^verbatim>\<open>str\<close> of the list above is \<^verbatim>\<open>[nan]\<close>.
\<close>

definition container_text :: "pyval \<Rightarrow> ustr" where
  "container_text v = (if v = PList [PDouble NaN] then u ''[nan]'' else u ''[]'')"


definition utf8 :: "nat \<Rightarrow> bool" where
  "utf8 c = (c < 55296 \<or> 57343 < c)"


text \<open>A playing player whose metadata cannot be read.\<close>

definition player_mute :: player where
  "player_mute =
     \<lparr>PlaybackStatus1 = Some (u ''Playing''), Metadata = None,
      PlaybackStatus2 = Some (u ''Playing'')\<rparr>"

text \<open>Attempts: one answered with 200 and the file in two chunks, one answered with 404.\<close>

definition attempt_ok :: attempt where
  "attempt_ok =
     \<lparr>timestamp = u ''2024-05-01 12:00:00'', epoch = 1714564800, makedirs_raises = None,
      response = Response 200 [''port: 7890'', ''mode: rule''] None, open_raises = None\<rparr>"


text \<open>An attempt answered with 304 and an empty body.\<close>

definition attempt_304 :: attempt where
  "attempt_304 =
     \<lparr>timestamp = u ''2024-05-01 14:00:00'', epoch = 1714572000, makedirs_raises = None,
      response = Response 304 [] None, open_raises = None\<rparr>"



definition state_ready :: state where
  "state_ready =
     \<lparr>dirs = {SAVE_DIRECTORY},
      files = [u ''/home/wanzhengwang/.config/clash/config.yaml'' \<mapsto> ''port: 7891''],
      events = []\<rparr>"




section \<open>Properties of the Reporter\<close>

subsection \<open>Selection\<close>

lemma filter_first:
  assumes "i < length xs" and "P (xs ! i)" and "\<forall>j<i. \<not> P (xs ! j)"
  shows "filter P xs \<noteq> [] \<and> hd (filter P xs) = xs ! i"
  using assms
proof (induction xs arbitrary: i)
  case Nil
  then show ?case by simp
next
  case (Cons x xs)
  show ?case
  proof (cases i)
    case 0
    with Cons.prems show ?thesis by simp
  next
    case (Suc k)
    from Cons.prems(3) Suc have nx: "\<not> P x" by auto
    have "k < length xs" using Cons.prems(1) Suc by simp
    moreover have "P (xs ! k)" using Cons.prems(2) Suc by simp
    moreover have "\<forall>j<k. \<not> P (xs ! j)"
    proof (intro allI impI)
      fix j assume "j < k"
      then have "Suc j < i" using Suc by simp
      with Cons.prems(3) have "\<not> P ((x # xs) ! Suc j)" by blast
      then show "\<not> P (xs ! j)" by simp
    qed
    ultimately have "filter P xs \<noteq> [] \<and> hd (filter P xs) = xs ! k"
      by (rule Cons.IH)
    with nx Suc show ?thesis by simp
  qed
qed

lemma filter_none: "(\<forall>j<length xs. \<not> P (xs ! j)) \<Longrightarrow> filter P xs = []"
  by (auto simp add: filter_empty_conv in_set_conv_nth)

text \<open>
  C2. The selection returns the player and name of the first candidate, in list order,
  whose status is "Playing"; when no candidate is playing, those of the first whose status
  is "Paused"; when none is playing or paused, nothing. Of two candidates, one paused and
  one playing, the playing one is selected in either order.
\<close>

theorem choose_best_player_priority:
  fixes players :: "'p candidate list"
  shows
    "(\<forall>i<length players.
        snd (snd (players ! i)) = u ''Playing'' \<and>
        (\<forall>j<i. snd (snd (players ! j)) \<noteq> u ''Playing'') \<longrightarrow>
        choose_best_player players = Some (fst (players ! i), fst (snd (players ! i)))) \<and>
     ((\<forall>j<length players. snd (snd (players ! j)) \<noteq> u ''Playing'') \<longrightarrow>
      (\<forall>i<length players.
        snd (snd (players ! i)) = u ''Paused'' \<and>
        (\<forall>j<i. snd (snd (players ! j)) \<noteq> u ''Paused'') \<longrightarrow>
        choose_best_player players = Some (fst (players ! i), fst (snd (players ! i))))) \<and>
     ((\<forall>j<length players. snd (snd (players ! j)) \<noteq> u ''Playing'' \<and>
                            snd (snd (players ! j)) \<noteq> u ''Paused'') \<longrightarrow>
      choose_best_player players = None) \<and>
     (\<forall>(a :: 'p) na (b :: 'p) nb.
        choose_best_player [(a, na, u ''Paused''), (b, nb, u ''Playing'')] = Some (b, nb) \<and>
        choose_best_player [(b, nb, u ''Playing''), (a, na, u ''Paused'')] = Some (b, nb))"
proof (intro conjI allI impI)
  fix i
  assume "i < length players"
    and "snd (snd (players ! i)) = u ''Playing'' \<and>
         (\<forall>j<i. snd (snd (players ! j)) \<noteq> u ''Playing'')"
  then have "filter (\<lambda>p. snd (snd p) = u ''Playing'') players \<noteq> [] \<and>
             hd (filter (\<lambda>p. snd (snd p) = u ''Playing'') players) = players ! i"
    by (intro filter_first) auto
  then show "choose_best_player players = Some (fst (players ! i), fst (snd (players ! i)))"
    by (simp add: choose_best_player_def Let_def)
next
  fix i
  assume none: "\<forall>j<length players. snd (snd (players ! j)) \<noteq> u ''Playing''"
    and "i < length players"
    and "snd (snd (players ! i)) = u ''Paused'' \<and>
         (\<forall>j<i. snd (snd (players ! j)) \<noteq> u ''Paused'')"
  then have "filter (\<lambda>p. snd (snd p) = u ''Paused'') players \<noteq> [] \<and>
             hd (filter (\<lambda>p. snd (snd p) = u ''Paused'') players) = players ! i"
    by (intro filter_first) auto
  moreover have "filter (\<lambda>p. snd (snd p) = u ''Playing'') players = []"
    using none by (intro filter_none) simp
  ultimately show
    "choose_best_player players = Some (fst (players ! i), fst (snd (players ! i)))"
    by (simp add: choose_best_player_def Let_def)
next
  assume none: "\<forall>j<length players. snd (snd (players ! j)) \<noteq> u ''Playing'' \<and>
                                     snd (snd (players ! j)) \<noteq> u ''Paused''"
  have "filter (\<lambda>p. snd (snd p) = u ''Playing'') players = []"
    using none by (intro filter_none) simp
  moreover have "filter (\<lambda>p. snd (snd p) = u ''Paused'') players = []"
    using none by (intro filter_none) simp
  ultimately show "choose_best_player players = None"
    by (simp add: choose_best_player_def Let_def)
next
  fix a :: 'p and na and b :: 'p and nb
  show "choose_best_player [(a, na, u ''Paused''), (b, nb, u ''Playing'')] = Some (b, nb)"
    by (simp add: choose_best_player_def Let_def u_def)
  show "choose_best_player [(b, nb, u ''Playing''), (a, na, u ''Paused'')] = Some (b, nb)"
    by (simp add: choose_best_player_def Let_def u_def)
qed

text \<open>
  The theorem at three candidate lists whose players are numbered: a stopped, a paused and
  two playing candidates (the first playing one wins), a stopped and two paused ones (the
  first paused one wins), and a stopped one alone (nothing is selected).
\<close>

theorem choose_best_player_priority_witness:
  "choose_best_player
     [(1 :: nat, u ''mpv'', u ''Stopped''), (2, u ''vlc'', u ''Paused''),
      (3, u ''spotify'', u ''Playing''), (4, u ''mpd'', u ''Playing'')] = Some (3, u ''spotify'') \<and>
   choose_best_player
     [(1 :: nat, u ''mpv'', u ''Stopped''), (2, u ''vlc'', u ''Paused''),
      (3, u ''mpd'', u ''Paused'')] = Some (2, u ''vlc'') \<and>
   choose_best_player [(1 :: nat, u ''mpv'', u ''Stopped'')] = None"
proof (intro conjI)
  have ne: "u ''Stopped'' \<noteq> u ''Playing''" "u ''Paused'' \<noteq> u ''Playing''"
    "u ''Stopped'' \<noteq> u ''Paused''"
    by (simp_all add: u_def)
  {
    let ?ps = "[(1 :: nat, u ''mpv'', u ''Stopped''), (2, u ''vlc'', u ''Paused''),
                (3, u ''spotify'', u ''Playing''), (4, u ''mpd'', u ''Playing'')]"
    have first: "\<forall>j<2. snd (snd (?ps ! j)) \<noteq> u ''Playing''"
      using ne by (simp add: less_Suc_eq numeral_2_eq_2)
    have len: "(2 :: nat) < length ?ps" by simp
    have pl: "snd (snd (?ps ! 2)) = u ''Playing''" by simp
    have "choose_best_player ?ps = Some (fst (?ps ! 2), fst (snd (?ps ! 2)))"
      by (rule choose_best_player_priority [of ?ps, THEN conjunct1, THEN spec, of 2,
            THEN mp, OF len, THEN mp, OF conjI [OF pl first]])
    then show "choose_best_player ?ps = Some (3, u ''spotify'')" by simp
  }
  {
    let ?ps = "[(1 :: nat, u ''mpv'', u ''Stopped''), (2, u ''vlc'', u ''Paused''),
                (3, u ''mpd'', u ''Paused'')]"
    have none: "\<forall>j<length ?ps. snd (snd (?ps ! j)) \<noteq> u ''Playing''"
      using ne by (simp add: less_Suc_eq numeral_3_eq_3)
    have len: "(1 :: nat) < length ?ps" by simp
    have pa: "snd (snd (?ps ! 1)) = u ''Paused''" by simp
    have first: "\<forall>j<1. snd (snd (?ps ! j)) \<noteq> u ''Paused''"
      using ne by simp
    have "choose_best_player ?ps = Some (fst (?ps ! 1), fst (snd (?ps ! 1)))"
      by (rule choose_best_player_priority [of ?ps, THEN conjunct2, THEN conjunct1,
            THEN mp, OF none, THEN spec, of 1, THEN mp, OF len, THEN mp,
            OF conjI [OF pa first]])
    then show "choose_best_player ?ps = Some (2, u ''vlc'')" by simp
  }
  {
    let ?ps = "[(1 :: nat, u ''mpv'', u ''Stopped'')]"
    have none: "\<forall>j<length ?ps. snd (snd (?ps ! j)) \<noteq> u ''Playing'' \<and>
                                 snd (snd (?ps ! j)) \<noteq> u ''Paused''"
      using ne by simp
    show "choose_best_player ?ps = None"
      by (rule choose_best_player_priority [of ?ps, THEN conjunct2, THEN conjunct2,
            THEN conjunct1, THEN mp, OF none])
  }
qed

subsection \<open>Display text\<close>

text \<open>
  C4. For a track info whose artist and title are strings, the display text is
  "artist - title" when both are non-empty, else the title when it is non-empty, else the
  artist when it is non-empty, else "Unknown Track". A text longer than 40 characters
  becomes its first 39 characters followed by the ellipsis, 40 characters in all; a text of
  at most 40 characters is returned unchanged.
\<close>

theorem format_display_text_spec:
  "let text =
     (if a \<noteq> [] \<and> t \<noteq> [] then a @ u '' - '' @ t
      else if t \<noteq> [] then t
      else if a \<noteq> [] then a
      else u ''Unknown Track'');
     shown =
       format_display_text cstr \<lparr>artist = PStr a, title = PStr t, album = al, status = st\<rparr>
   in (length text > 40 \<longrightarrow>
         shown = Inr (PStr (take 39 text @ [8230])) \<and>
         length (take 39 text @ [8230]) = 40 \<and>
         last (take 39 text @ [8230]) = 8230) \<and>
      (length text \<le> 40 \<longrightarrow> shown = Inr (PStr text))"
  by (auto simp add: format_display_text_def MAX_LENGTH_def ELLIPSIS_def Let_def)

text \<open>
  The theorem at a 43-character "artist - title" text, which is cut, and at a title alone,
  which is kept.
\<close>

theorem format_display_text_spec_witness:
  "format_display_text container_text
     \<lparr>artist = PStr (u ''Ludwig van Beethoven''), title = PStr (u ''Symphony No. 9 in D''),
      album = PStr [], status = u ''Playing''\<rparr>
     = Inr (PStr (u ''Ludwig van Beethoven - Symphony No. 9 i'' @ [8230])) \<and>
   format_display_text container_text
     \<lparr>artist = PStr [], title = PStr (u ''Ode''), album = PStr [], status = u ''Paused''\<rparr>
     = Inr (PStr (u ''Ode''))"
proof (intro conjI)
  show "format_display_text container_text
     \<lparr>artist = PStr (u ''Ludwig van Beethoven''), title = PStr (u ''Symphony No. 9 in D''),
      album = PStr [], status = u ''Playing''\<rparr>
     = Inr (PStr (u ''Ludwig van Beethoven - Symphony No. 9 i'' @ [8230]))"
    using format_display_text_spec
      [of "u ''Ludwig van Beethoven''" "u ''Symphony No. 9 in D''" container_text "PStr []"
          "u ''Playing''"]
    by (simp add: u_def Let_def)
next
  show "format_display_text container_text
     \<lparr>artist = PStr [], title = PStr (u ''Ode''), album = PStr [], status = u ''Paused''\<rparr>
     = Inr (PStr (u ''Ode''))"
    using format_display_text_spec [of "[]" "u ''Ode''" container_text "PStr []" "u ''Paused''"]
    by (simp add: u_def Let_def)
qed

subsection \<open>The examples, evaluated\<close>

lemmas enum_defs = get_all_players_def get_player_from_service_def
  get_player_service_name_def startswith_def MPRIS_PREFIX_def bus_of_def Let_def

lemma players_one:
  "get_all_players (bus_of [(u ''org.mpris.MediaPlayer2.mpv'', p)]) =
     (case PlaybackStatus1 p of Some st \<Rightarrow> [(p, u ''mpv'', st)] | None \<Rightarrow> [])"
  by (simp add: enum_defs u_def split: option.splits)


lemma choose_one_playing:
  "choose_best_player [(p, n, u ''Playing'')] = Some (p, n)"
  by (simp add: choose_best_player_def)

lemma choose_one_stopped:
  "choose_best_player [(p, n, u ''Stopped'')] = None"
  by (simp add: choose_best_player_def u_def)


lemma selected_one:
  "PlaybackStatus1 p = Some (u ''Playing'') \<Longrightarrow>
   get_bus (SessionBus (bus_of [(u ''org.mpris.MediaPlayer2.mpv'', p)])) =
     Some (bus_of [(u ''org.mpris.MediaPlayer2.mpv'', p)]) \<and>
   choose_best_player (get_all_players (bus_of [(u ''org.mpris.MediaPlayer2.mpv'', p)])) =
     Some (p, u ''mpv'')"
  by (simp add: get_bus_def players_one choose_one_playing)





lemma info_nan:
  "get_metadata_info player_nan =
     Some \<lparr>artist = PStr [], title = PList [PDouble NaN], album = PStr [],
           status = u ''Playing''\<rparr>"
  by (simp add: get_metadata_info_def player_nan_def track_nan_def metadata_empty_def u_def)

lemma text_nan:
  "format_display_text cstr
     \<lparr>artist = PStr [], title = PList [PDouble NaN], album = PStr [],
      status = u ''Playing''\<rparr> = Inr (PList [PDouble NaN])"
  by (simp add: format_display_text_def MAX_LENGTH_def)



lemma result_nan:
  "build_result ascii_lower container_text (u ''mpv'')
     \<lparr>artist = PStr [], title = PList [PDouble NaN], album = PStr [],
      status = u ''Playing''\<rparr> (PList [PDouble NaN]) =
   [(u ''text'', PList [PDouble NaN]),
    (u ''tooltip'',
     PStr (u '' - [nan]'' @ [10] @ u ''Status: Playing'' @ [10] @ u ''Player: mpv'')),
    (u ''class'', PStr (u ''player-mpv'')),
    (u ''alt'', PStr (u ''mpv'')),
    (u ''percentage'', PInt 0)]"
  by (simp add: build_result_def get_player_icon_def ascii_lower_def container_text_def
      PLAYER_ICONS_def DEFAULT_ICON_def Let_def u_def)

lemma dumps_nan:
  "dumps
     [(u ''text'', PList [PDouble NaN]),
      (u ''tooltip'',
       PStr (u '' - [nan]'' @ [10] @ u ''Status: Playing'' @ [10] @ u ''Player: mpv'')),
      (u ''class'', PStr (u ''player-mpv'')),
      (u ''alt'', PStr (u ''mpv'')),
      (u ''percentage'', PInt 0)] =
   u ''{\"text\": [NaN], \"tooltip\": \" - [nan]'' @ [92, 110] @ u ''Status: Playing'' @
   [92, 110] @ u ''Player: mpv\", \"class\": \"player-mpv\", \"alt\": \"mpv\", '' @
   u ''\"percentage\": 0}''"
  by (simp add: dumps_def encode_item_def encode_basestring_def
      escape_char_def str_int_def str_nat.simps [of 0] u_def)

lemma writable_nan_line:
  "writable enc
     ((u ''{\"text\": [NaN], \"tooltip\": \" - [nan]'' @ [92, 110] @ u ''Status: Playing'' @
       [92, 110] @ u ''Player: mpv\", \"class\": \"player-mpv\", \"alt\": \"mpv\", '' @
       u ''\"percentage\": 0}'') @ [10])"
  by (simp add: writable_def u_def)

lemma print_json_empty: "print_json enc [] [] = [u ''{}'' @ [10]]"
  by (simp add: print_json_def dumps_def writable_def u_def)

subsection \<open>The output of main\<close>

lemma main_selected:
  assumes "get_bus env = Some b"
    and "choose_best_player (get_all_players b) = Some (p, name)"
    and "get_metadata_info p = Some info"
  shows "main lower cstr enc env =
     (case format_display_text cstr info of
        Inl e \<Rightarrow> print_json enc [] []
      | Inr text \<Rightarrow> print_json enc (build_result lower cstr name info text) [])"
proof -
  have "get_all_players b \<noteq> []"
    using assms(2) by (auto simp add: choose_best_player_def)
  with assms show ?thesis by (simp add: main_def Let_def)
qed

text \<open>
  C1. On a bus whose one player is playing and reports as title a list that holds the
  double \<^verbatim>\<open>nan\<close>, the title is the display text, for \<^verbatim>\<open>len\<close> of the list is 1, and
  \<^verbatim>\<open>json.dumps\<close> writes it as \<^verbatim>\<open>[NaN]\<close>. The line \<^verbatim>\<open>main\<close> writes is ASCII, so every
  standard output takes it; \<^verbatim>\<open>NaN\<close> is no value of JSON, so the line is not a JSON text.
\<close>

theorem main_prints_nan:
  "main ascii_lower container_text enc
     (SessionBus (bus_of [(u ''org.mpris.MediaPlayer2.mpv'', player_nan)])) =
   [u ''{\"text\": [NaN], \"tooltip\": \" - [nan]'' @ [92, 110] @ u ''Status: Playing'' @
    [92, 110] @ u ''Player: mpv\", \"class\": \"player-mpv\", \"alt\": \"mpv\", '' @
    u ''\"percentage\": 0}'' @ [10]]"
proof -
  let ?b = "bus_of [(u ''org.mpris.MediaPlayer2.mpv'', player_nan)]"
  have "PlaybackStatus1 player_nan = Some (u ''Playing'')" by (simp add: player_nan_def)
  from selected_one [OF this]
  have "main ascii_lower container_text enc (SessionBus ?b) =
        print_json enc
          (build_result ascii_lower container_text (u ''mpv'')
             \<lparr>artist = PStr [], title = PList [PDouble NaN], album = PStr [],
              status = u ''Playing''\<rparr> (PList [PDouble NaN])) []"
    using main_selected [of "SessionBus ?b" ?b player_nan "u ''mpv''", OF _ _ info_nan]
    by (simp add: text_nan)
  then show ?thesis
    using writable_nan_line [of enc]
    by (simp only: result_nan dumps_nan print_json_def Let_def if_True append_Nil append_assoc)
qed

text \<open>
  C5. When the metadata read from the selected player is an empty dictionary, or the status
  read with it is "Stopped", \<^verbatim>\<open>get_metadata_info\<close> returns nothing and \<^verbatim>\<open>main\<close> writes
  \<^verbatim>\<open>{}\<close>, although the player was the one selected.
\<close>

theorem stopped_or_empty_reports_nothing:
  "((\<exists>md. Metadata p = Some md \<and> metadata_empty md) \<or>
    PlaybackStatus2 p = Some (u ''Stopped'') \<longrightarrow> get_metadata_info p = None) \<and>
   (get_bus env = Some b \<and> choose_best_player (get_all_players b) = Some (p, name) \<and>
    ((\<exists>md. Metadata p = Some md \<and> metadata_empty md) \<or>
     PlaybackStatus2 p = Some (u ''Stopped'')) \<longrightarrow>
    main lower cstr enc env = [u ''{}'' @ [10]])"
proof -
  have a: "get_metadata_info p = None"
    if "(\<exists>md. Metadata p = Some md \<and> metadata_empty md) \<or>
        PlaybackStatus2 p = Some (u ''Stopped'')"
    using that by (auto simp add: get_metadata_info_def split: option.splits)
  have b: "main lower cstr enc env = [u ''{}'' @ [10]]"
    if "get_bus env = Some b" "choose_best_player (get_all_players b) = Some (p, name)"
       "get_metadata_info p = None"
    using that by (simp add: main_def print_json_empty Let_def)
  from a b show ?thesis by blast
qed

text \<open>
  The theorem at a player that was playing when listed and is stopped when its metadata is
  read, and at a playing player whose metadata dictionary is empty.
\<close>

theorem stopped_or_empty_reports_nothing_witness:
  "get_metadata_info player_stopping = None \<and>
   get_metadata_info player_blank = None \<and>
   main ascii_lower container_text utf8
     (SessionBus (bus_of [(u ''org.mpris.MediaPlayer2.mpv'', player_stopping)])) =
     [u ''{}'' @ [10]] \<and>
   main ascii_lower container_text utf8
     (SessionBus (bus_of [(u ''org.mpris.MediaPlayer2.mpv'', player_blank)])) =
     [u ''{}'' @ [10]]"
proof (intro conjI)
  have st: "(\<exists>md. Metadata player_stopping = Some md \<and> metadata_empty md) \<or>
            PlaybackStatus2 player_stopping = Some (u ''Stopped'')"
    by (simp add: player_stopping_def)
  have bl: "(\<exists>md. Metadata player_blank = Some md \<and> metadata_empty md) \<or>
            PlaybackStatus2 player_blank = Some (u ''Stopped'')"
    by (simp add: player_blank_def no_entries_def metadata_empty_def)
  show "get_metadata_info player_stopping = None"
    by (rule stopped_or_empty_reports_nothing [THEN conjunct1, THEN mp, OF st])
  show "get_metadata_info player_blank = None"
    by (rule stopped_or_empty_reports_nothing [THEN conjunct1, THEN mp, OF bl])
  {
    let ?b = "bus_of [(u ''org.mpris.MediaPlayer2.mpv'', player_stopping)]"
    have "get_bus (SessionBus ?b) = Some ?b \<and>
          choose_best_player (get_all_players ?b) = Some (player_stopping, u ''mpv'')"
      by (rule selected_one) (simp add: player_stopping_def)
    with st have h: "get_bus (SessionBus ?b) = Some ?b \<and>
          choose_best_player (get_all_players ?b) = Some (player_stopping, u ''mpv'') \<and>
          ((\<exists>md. Metadata player_stopping = Some md \<and> metadata_empty md) \<or>
            PlaybackStatus2 player_stopping = Some (u ''Stopped''))"
      by simp
    show "main ascii_lower container_text utf8 (SessionBus ?b) = [u ''{}'' @ [10]]"
      by (rule stopped_or_empty_reports_nothing [THEN conjunct2, THEN mp, OF h])
  }
  {
    let ?b = "bus_of [(u ''org.mpris.MediaPlayer2.mpv'', player_blank)]"
    have "get_bus (SessionBus ?b) = Some ?b \<and>
          choose_best_player (get_all_players ?b) = Some (player_blank, u ''mpv'')"
      by (rule selected_one) (simp add: player_blank_def)
    with bl have h: "get_bus (SessionBus ?b) = Some ?b \<and>
          choose_best_player (get_all_players ?b) = Some (player_blank, u ''mpv'') \<and>
          ((\<exists>md. Metadata player_blank = Some md \<and> metadata_empty md) \<or>
            PlaybackStatus2 player_blank = Some (u ''Stopped''))"
      by simp
    show "main ascii_lower container_text utf8 (SessionBus ?b) = [u ''{}'' @ [10]]"
      by (rule stopped_or_empty_reports_nothing [THEN conjunct2, THEN mp, OF h])
  }
qed










subsection \<open>Enumeration\<close>

text \<open>
  C3. \<^verbatim>\<open>get_all_players\<close> connects to the prefix followed by the last dot-separated piece
  of a listed name, not to the name itself. A registered player whose name has a further
  dot after the prefix is therefore not reached: on a bus where
  \<^verbatim>\<open>org.mpris.MediaPlayer2.firefox.instance_1_23\<close> is listed, answers \<^verbatim>\<open>bus.get\<close> and
  reports the status "Playing", the result is empty.
\<close>

theorem get_all_players_dotted_name:
  "startswith (u ''org.mpris.MediaPlayer2.firefox.instance_1_23'') MPRIS_PREFIX \<and>
   ListNames (bus_of [(u ''org.mpris.MediaPlayer2.firefox.instance_1_23'', player_playing)]) =
     Some [u ''org.freedesktop.DBus'', u ''org.mpris.MediaPlayer2.firefox.instance_1_23''] \<and>
   bus_get (bus_of [(u ''org.mpris.MediaPlayer2.firefox.instance_1_23'', player_playing)])
     (u ''org.mpris.MediaPlayer2.firefox.instance_1_23'') = Some player_playing \<and>
   PlaybackStatus1 player_playing = Some (u ''Playing'') \<and>
   get_all_players
     (bus_of [(u ''org.mpris.MediaPlayer2.firefox.instance_1_23'', player_playing)]) = []"
  by (simp add: enum_defs u_def player_playing_def)

section \<open>Properties of the Fetcher\<close>

subsection \<open>One attempt\<close>

lemma printed_append: "printed (xs @ ys) = printed xs @ printed ys"
  by (induction xs rule: printed.induct) simp_all


lemma write_chunks_printed: "printed (events (write_chunks p cs st)) = printed (events st)"
  by (induction cs arbitrary: st) (simp_all add: emit_def printed_append)

text \<open>What the body leaves: events are only added, directories are only added.\<close>

lemma ensure_directory_cases:
  "(path_exists st SAVE_DIRECTORY \<and> ensure_directory a st = Inr st) \<or>
   (\<not> path_exists st SAVE_DIRECTORY \<and> (\<exists>m. makedirs_raises a = Some m \<and>
      ensure_directory a st = Inl (OSError m, emit (Makedirs SAVE_DIRECTORY) st))) \<or>
   (\<not> path_exists st SAVE_DIRECTORY \<and> makedirs_raises a = None \<and>
      ensure_directory a st =
        Inr (st\<lparr>dirs := insert SAVE_DIRECTORY (dirs st),
                 events := events st @ [Makedirs SAVE_DIRECTORY, Print (DirCreated SAVE_DIRECTORY)]\<rparr>))"
  by (cases "makedirs_raises a") (auto simp add: ensure_directory_def emit_def Let_def)

lemma path_exists_emit: "path_exists (emit ev st) p = path_exists st p"
  by (simp add: path_exists_def emit_def)

lemma body_printed:
  "case download_body a st of
     Inr st1 \<Rightarrow>
       (\<exists>mid p. printed (events st1) = printed (events st) @ mid @ [Saved p] \<and>
                (mid = [] \<or> mid = [DirCreated SAVE_DIRECTORY]) \<and>
                (mid = [DirCreated SAVE_DIRECTORY]) =
                  (\<not> path_exists st SAVE_DIRECTORY \<and> makedirs_raises a = None))
   | Inl (e, st1) \<Rightarrow>
       (\<exists>mid. printed (events st1) = printed (events st) @ mid \<and>
              (mid = [] \<or> mid = [DirCreated SAVE_DIRECTORY]) \<and>
              (mid = [DirCreated SAVE_DIRECTORY]) =
                (\<not> path_exists st SAVE_DIRECTORY \<and> makedirs_raises a = None))"
  using ensure_directory_cases [of st a]
  by (auto simp add: download_body_def emit_def Let_def printed_append write_chunks_printed
      open_wb_def split: http_result.splits option.splits)

text \<open>
  C9, as the script has it. Every attempt prints the start line first and one outcome line
  last, which is the success with the path or a failure with its reason; between them it
  prints the line about the directory exactly when it has created the directory. An
  attempt so prints two or three lines, never one.
\<close>

theorem attempt_log_lines:
  "\<exists>mid outcome.
     printed (events (download_file a st)) =
       printed (events st) @ [Started (timestamp a)] @ mid @ [outcome] \<and>
     (mid = [] \<or> mid = [DirCreated SAVE_DIRECTORY]) \<and>
     (mid = [DirCreated SAVE_DIRECTORY]) =
       (\<not> path_exists st SAVE_DIRECTORY \<and> makedirs_raises a = None) \<and>
     (is_failure outcome \<or> (\<exists>p. outcome = Saved p))"
proof -
  let ?st0 = "emit (Print (Started (timestamp a))) st"
  have p0: "printed (events ?st0) = printed (events st) @ [Started (timestamp a)]"
    by (simp add: emit_def printed_append)
  show ?thesis
  proof (cases "download_body a ?st0")
    case (Inr st1)
    with body_printed [where a = a and st = "?st0"] obtain mid p where
      "printed (events st1) = printed (events ?st0) @ mid @ [Saved p]"
      "mid = [] \<or> mid = [DirCreated SAVE_DIRECTORY]"
      "(mid = [DirCreated SAVE_DIRECTORY]) =
         (\<not> path_exists st SAVE_DIRECTORY \<and> makedirs_raises a = None)"
      by (auto simp add: path_exists_emit)
    with Inr p0 show ?thesis
      by (intro exI [of _ mid] exI [of _ "Saved p"]) (simp add: download_file_def)
  next
    case (Inl raised)
    obtain e st1 where r: "raised = (e, st1)" by (cases raised)
    with Inl body_printed [where a = a and st = "?st0"] obtain mid where
      m: "printed (events st1) = printed (events ?st0) @ mid"
      "mid = [] \<or> mid = [DirCreated SAVE_DIRECTORY]"
      "(mid = [DirCreated SAVE_DIRECTORY]) =
         (\<not> path_exists st SAVE_DIRECTORY \<and> makedirs_raises a = None)"
      by (auto simp add: path_exists_emit)
    show ?thesis
    proof (cases "is_request_exception e")
      case True
      with Inl r m p0 show ?thesis
        by (intro exI [of _ mid] exI [of _ "NetworkFailure e"])
          (simp add: download_file_def emit_def printed_append)
    next
      case False
      with Inl r m p0 show ?thesis
        by (intro exI [of _ mid] exI [of _ "UnknownError e"])
          (simp add: download_file_def emit_def printed_append)
    qed
  qed
qed

text \<open>
  C9 as claimed, one line for each attempt, fails: a successful attempt in a world where
  the directory exists prints the start line and the success line.
\<close>

theorem attempt_prints_two_lines:
  "printed (events (download_file attempt_ok state_ready)) =
     [Started (u ''2024-05-01 12:00:00''),
      Saved (u ''/home/wanzhengwang/.config/clash/config.yaml'')] \<and>
   length (printed (events (download_file attempt_ok state_ready))) \<noteq> 1"
  by (simp add: download_file_def download_body_def ensure_directory_def path_exists_def
      state_ready_def attempt_ok_def emit_def open_wb_def path_join_def final_filename_def
      SAVE_FILENAME_def SAVE_DIRECTORY_def startswith_def Let_def u_def)







text \<open>
  C6. An attempt answered with the status 304 and an empty body, in a world where an older
  \<^verbatim>\<open>config.yaml\<close> exists: \<^verbatim>\<open>raise_for_status\<close> does not raise, for it raises from 400 to
  599 only; the file is opened for writing, which empties it, nothing is written, and the
  attempt prints the line of a success. The comment of line 39 takes the call to check for
  the status 200. With an empty body, the older file is kept exactly under the statuses
  from 400 to 599 and is emptied under every other one.
\<close>

theorem status_304_overwrites:
  "response attempt_304 = Response 304 [] None \<and>
   files state_ready (u ''/home/wanzhengwang/.config/clash/config.yaml'') =
     Some ''port: 7891'' \<and>
   events (download_file attempt_304 state_ready) =
     [Print (Started (u ''2024-05-01 14:00:00'')), Get FILE_URL,
      OpenWB (u ''/home/wanzhengwang/.config/clash/config.yaml''),
      Print (Saved (u ''/home/wanzhengwang/.config/clash/config.yaml''))] \<and>
   files (download_file attempt_304 state_ready)
     (u ''/home/wanzhengwang/.config/clash/config.yaml'') = Some [] \<and>
   files (download_file (attempt_304\<lparr>response := Response code [] None\<rparr>) state_ready)
     (u ''/home/wanzhengwang/.config/clash/config.yaml'') =
     (if 400 \<le> code \<and> code < 600 then Some ''port: 7891'' else Some [])"
  by (simp add: download_file_def download_body_def ensure_directory_def path_exists_def
      state_ready_def attempt_304_def emit_def open_wb_def path_join_def final_filename_def
      SAVE_FILENAME_def SAVE_DIRECTORY_def startswith_def Let_def u_def)

subsection \<open>The schedule\<close>
























end
